theory Spec2Isabelle
  imports Complex_Main "HOL-Library.Word"
begin

section \<open>Python built-ins used by the search application\<close>

text \<open>
  The application is Python. Unbounded Python integers are \<open>int\<close>, strings are
  \<open>string\<close>, and every exception the handler can raise is a value of \<open>py_error\<close>.
\<close>

datatype py_error =
  TypeError | AttributeError | IndexError | KeyError | SocketError | BackendUnavailable

subsection \<open>\<open>bin\<close> and the slice \<open>s[-k:]\<close>\<close>

text \<open>
  \<open>bin(n)\<close> writes the magnitude of \<open>n\<close> in base two, most significant digit first,
  after the prefix \<open>0b\<close>, and after a minus sign when \<open>n\<close> is negative:
  \<open>bin(5) = '0b101'\<close>, \<open>bin(0) = '0b0'\<close>, \<open>bin(-5) = '-0b101'\<close>.
\<close>

definition bit_char :: "nat \<Rightarrow> char" where
  "bit_char d = (if d = 0 then CHR ''0'' else CHR ''1'')"

fun bin_digits :: "nat \<Rightarrow> string" where
  "bin_digits n = (if n < 2 then [bit_char n] else bin_digits (n div 2) @ [bit_char (n mod 2)])"

declare bin_digits.simps [simp del]

definition py_bin :: "int \<Rightarrow> string" where
  "py_bin n = (if n < 0 then ''-0b'' else ''0b'') @ bin_digits (nat \<bar>n\<bar>)"

text \<open>
  \<open>s[-k:]\<close> for a non-negative \<open>k\<close>: the start index \<open>-k\<close> counts from the end and is
  clamped at the beginning of the string, so the slice is the whole string when
  \<open>k\<close> is at least its length. For \<open>k = 0\<close> the start is \<open>-0 = 0\<close>, and the slice is
  again the whole string (not the empty one).
\<close>

definition slice_last :: "nat \<Rightarrow> 'a list \<Rightarrow> 'a list" where
  "slice_last k s = (if k = 0 then s else drop (length s - k) s)"

subsection \<open>The labeling function\<close>

text \<open>
  \<open>labeling(x) = bin(hash(x))[-self.k:]\<close>. Python's \<open>hash\<close> is a built-in of the
  interpreter (seeded per process for strings); it is the parameter \<open>hash\<close> here.
\<close>

definition labeling :: "('a \<Rightarrow> int) \<Rightarrow> nat \<Rightarrow> 'a \<Rightarrow> string" where
  "labeling hash k x = slice_last k (py_bin (hash x))"

definition is_bitstring :: "nat \<Rightarrow> string \<Rightarrow> bool" where
  "is_bitstring k s \<longleftrightarrow> length s = k \<and> list_all (\<lambda>c. c = CHR ''0'' \<or> c = CHR ''1'') s"

subsection \<open>Text clean-up: \<open>str.translate\<close> and \<open>str.split\<close>\<close>

text \<open>
  \<open>string.punctuation\<close> is the 32 ASCII characters with codes 33..47, 58..64, 91..96
  and 123..126. \<open>str.maketrans('', '', string.punctuation)\<close> is the table that deletes
  exactly these, so \<open>text.translate(translator)\<close> filters them out.
\<close>

definition string_punctuation :: string where
  "string_punctuation =
     [CHR ''!'', CHR 0x22, CHR ''#'', CHR ''$'', CHR ''%'', CHR ''&'', CHR 0x27, CHR ''('',
      CHR '')'', CHR ''*'', CHR ''+'', CHR '','', CHR ''-'', CHR ''.'', CHR ''/'', CHR '':'',
      CHR '';'', CHR ''<'', CHR ''='', CHR ''>'', CHR ''?'', CHR ''@'', CHR ''['', CHR 0x5C,
      CHR '']'', CHR ''^'', CHR ''_'', CHR 0x60, CHR ''{'', CHR ''|'', CHR ''}'', CHR ''~'']"

definition translate_delete :: "string \<Rightarrow> string \<Rightarrow> string" where
  "translate_delete deleted text = filter (\<lambda>c. c \<notin> set deleted) text"

text \<open>
  \<open>s.split(sep)\<close> with an explicit one-character separator cuts at every occurrence:
  \<open>m\<close> separators give \<open>m + 1\<close> fields, empty fields included, and the empty string
  gives the one field \<open>''\<close>.
\<close>

fun split_on :: "'a \<Rightarrow> 'a list \<Rightarrow> 'a list list" where
  "split_on sep [] = [[]]"
| "split_on sep (c # cs) =
     (if c = sep then [] # split_on sep cs
      else (case split_on sep cs of w # ws \<Rightarrow> (c # w) # ws | [] \<Rightarrow> [[c]]))"

section \<open>Values decoded from a JSON request body\<close>

text \<open>
  \<open>request.get_json()\<close> yields a Python value: \<open>None\<close>, a \<open>bool\<close>, a number, a \<open>str\<close>,
  a \<open>list\<close> or a \<open>dict\<close> with string keys. The words of the text are \<open>str\<close> objects, and the
  queried word is whatever value the request carries, so items are values of this type.
\<close>

datatype json =
    JNull
  | JBool bool
  | JInt int
  | JFloat real
  | JStr string
  | JArr "json list"
  | JObj "(string \<times> json) list"

section \<open>The database oracle\<close>

text \<open>
  \<open>create_db_oracle\<close> fills a \<open>QuantumDictionary\<close> whose return type is a
  \<open>QuantumVariable(label_size)\<close> with \<open>qd[i] = labeling(db[i])\<close> for every
  \<open>i\<close> in \<open>range(len(db))\<close>. The closure it returns holds nothing but that dictionary,
  so the oracle is represented by the dictionary.
\<close>

record quantum_dictionary =
  return_size :: nat
  table :: "nat \<rightharpoonup> string"

definition create_db_oracle :: "'a list \<Rightarrow> ('a \<Rightarrow> string) \<Rightarrow> nat \<Rightarrow> quantum_dictionary" where
  "create_db_oracle db lab label_size =
     fold (\<lambda>i qd. qd\<lparr>table := (table qd)(i \<mapsto> lab (db ! i))\<rparr>) [0..<length db]
       \<lparr>return_size = label_size, table = Map.empty\<rparr>"

subsection \<open>Evaluating the oracle on the registers\<close>

unbundle bit_operations_syntax

text \<open>
  Modelled from the spec: the lookup \<open>qd[index_qf]\<close> on a quantum variable, the tagging
  \<open>tag_state\<close> and the decorator \<open>auto_uncompute\<close> belong to the quantum library, which
  is not part of the sources. The spec describes them on the two registers of one
  marking evaluation: the oracle is "a reversible function-like structure that, given
  an index, produces an associated value (label) without destroying the index"; it
  "populates the Label Register", a k-bit scratch register whose initial value is zero;
  marking is "multiplying the amplitude of selected states by a rotation factor without
  altering which basis states are present"; uncomputation is "the precise inverse of
  the forward evaluation". A basis state is the pair of register values. The
  reversible lookup adds the encoded label of the index bitwise (exclusive or) into the
  Label Register and loads nothing at an index without an entry. How the library
  encodes a label string as a register value is the parameter \<open>enc\<close>.
\<close>

record registers =
  index_reg :: nat
  label_reg :: nat

definition loaded_value :: "(string \<Rightarrow> nat) \<Rightarrow> quantum_dictionary \<Rightarrow> nat \<Rightarrow> nat" where
  "loaded_value enc qd i = (case table qd i of None \<Rightarrow> 0 | Some l \<Rightarrow> enc l)"

definition db_oracle :: "(string \<Rightarrow> nat) \<Rightarrow> quantum_dictionary \<Rightarrow> registers \<Rightarrow> registers" where
  "db_oracle enc qd r = r\<lparr>label_reg := label_reg r XOR loaded_value enc qd (index_reg r)\<rparr>"

definition db_oracle_inverse ::
  "(string \<Rightarrow> nat) \<Rightarrow> quantum_dictionary \<Rightarrow> registers \<Rightarrow> registers" where
  "db_oracle_inverse enc qd r =
     r\<lparr>label_reg := label_reg r XOR loaded_value enc qd (index_reg r)\<rparr>"

definition tag_state :: "(string \<Rightarrow> nat) \<Rightarrow> registers \<Rightarrow> string \<Rightarrow> real \<Rightarrow> complex \<Rightarrow> complex" where
  "tag_state enc r label_bitstring phase amplitude =
     (if label_reg r = enc label_bitstring then amplitude * cis phase else amplitude)"

text \<open>
  \<open>create_query_oracle\<close>: the query oracle computes the label of the query, evaluates
  the database oracle, tags the state whose label register holds the label of the
  query, and, being decorated with \<open>auto_uncompute\<close>, undoes the evaluation of the
  database oracle. It acts on one basis state with its amplitude, and on a
  superposition (a list of basis states with amplitudes) term by term.
\<close>

definition query_oracle ::
  "(string \<Rightarrow> nat) \<Rightarrow> quantum_dictionary \<Rightarrow> ('a \<Rightarrow> string) \<Rightarrow> registers \<times> complex \<Rightarrow> 'a \<Rightarrow> real
     \<Rightarrow> registers \<times> complex" where
  "query_oracle enc qd lab state query_object phase =
     (let label_bitstring = lab query_object;
          label_qv = db_oracle enc qd (fst state);
          amplitude = tag_state enc label_qv label_bitstring phase (snd state)
      in (db_oracle_inverse enc qd label_qv, amplitude))"

definition query_oracle_all ::
  "(string \<Rightarrow> nat) \<Rightarrow> quantum_dictionary \<Rightarrow> ('a \<Rightarrow> string) \<Rightarrow> (registers \<times> complex) list \<Rightarrow> 'a
     \<Rightarrow> real \<Rightarrow> (registers \<times> complex) list" where
  "query_oracle_all enc qd lab psi query_object phase =
     map (\<lambda>state. query_oracle enc qd lab state query_object phase) psi"

section \<open>The search application\<close>

subsection \<open>The execution backend\<close>

text \<open>
  \<open>search_word\<close> hands three things to the external quantum library
  (\<open>grovers_alg\<close>, then \<open>get_measurement\<close>): the index register \<open>QuantumFloat(self.n)\<close>,
  the query oracle (the database oracle, the labeling function and the query object) and
  the settings \<open>winner_state_amount=1\<close>, \<open>exact=True\<close>. The query oracle enters the
  circuit through the label \<open>labeling(query_object)\<close> that it tags. A \<open>grover_job\<close> is
  this data.
\<close>

record grover_job =
  job_index_width :: nat
  job_db_oracle :: quantum_dictionary
  job_query_label :: string
  job_winner_state_amount :: nat
  job_exact :: bool

text \<open>
  Modelled from the spec: the execution backend and the circuit construction of the
  quantum library are not part of the sources. The backend contract is
  \<open>submit(circuit_description, shots) -> mapping(bit_pattern -> count)\<close>, failing as a
  whole when the backend cannot be reached; the result extractor takes the first
  outcome and "decodes it as an unsigned integer Index". A backend is therefore any
  function from a job and a shot count to an error or a list of observed bit patterns
  with their counts, and a bit pattern is read most significant bit first.
\<close>

type_synonym measurement = "(bool list \<times> nat) list"

type_synonym backend = "grover_job \<Rightarrow> nat \<Rightarrow> py_error + measurement"

definition decode_unsigned :: "bool list \<Rightarrow> nat" where
  "decode_unsigned bits = foldl (\<lambda>acc b. 2 * acc + (if b then 1 else 0)) 0 bits"

subsection \<open>\<open>SearchApplication\<close>\<close>

record search_application =
  app_n :: nat
  app_k :: nat
  app_backend :: backend
  app_labeling :: "json \<Rightarrow> string"
  app_data :: "json list option"
  app_db_oracle :: "quantum_dictionary option"

text \<open>
  \<open>__init__(self, n, k, backend=None)\<close>: the default backend of the library is used when
  none is given; the labeling closure reads \<open>self.k\<close>.
\<close>

definition SearchApplication ::
  "backend \<Rightarrow> (json \<Rightarrow> int) \<Rightarrow> nat \<Rightarrow> nat \<Rightarrow> backend option \<Rightarrow> search_application" where
  "SearchApplication default_backend hash n k backend =
     \<lparr>app_n = n, app_k = k,
      app_backend = (case backend of None \<Rightarrow> default_backend | Some b \<Rightarrow> b),
      app_labeling = labeling hash k,
      app_data = None, app_db_oracle = None\<rparr>"

text \<open>
  \<open>update_text\<close>: delete the punctuation, split at single spaces, keep the first
  \<open>2**n\<close> words (\<open>[:2**self.n]\<close>), and build the database oracle over them.
\<close>

definition update_text :: "search_application \<Rightarrow> string \<Rightarrow> search_application" where
  "update_text app text =
     (let clean_text = translate_delete string_punctuation text;
          words = map JStr (take (2 ^ app_n app) (split_on CHR '' '' clean_text))
      in app\<lparr>app_data := Some words,
              app_db_oracle := Some (create_db_oracle words (app_labeling app) (app_k app))\<rparr>)"

text \<open>
  \<open>hash\<close> raises \<open>TypeError\<close> on a \<open>list\<close> or a \<open>dict\<close>; every other decoded value is
  hashable.
\<close>

fun unhashable :: "json \<Rightarrow> bool" where
  "unhashable (JArr _) = True"
| "unhashable (JObj _) = True"
| "unhashable _ = False"

text \<open>
  \<open>search_word\<close>: the query oracle computes \<open>labeling(query_object)\<close> and calls
  \<open>self.db_oracle\<close>, which is \<open>None\<close> (not callable) before the first \<open>update_text\<close>.
  One shot is requested, and the first key of the measurement is returned;
  \<open>list(...)[0]\<close> raises \<open>IndexError\<close> on an empty measurement.
\<close>

definition search_job :: "search_application \<Rightarrow> quantum_dictionary \<Rightarrow> json \<Rightarrow> grover_job" where
  "search_job app qd query_object =
     \<lparr>job_index_width = app_n app, job_db_oracle = qd,
      job_query_label = app_labeling app query_object,
      job_winner_state_amount = 1, job_exact = True\<rparr>"

definition search_word :: "search_application \<Rightarrow> json \<Rightarrow> py_error + int" where
  "search_word app query_object =
     (if unhashable query_object then Inl TypeError
      else case app_db_oracle app of
        None \<Rightarrow> Inl TypeError
      | Some qd \<Rightarrow>
          (case app_backend app (search_job app qd query_object) 1 of
             Inl e \<Rightarrow> Inl e
           | Inr [] \<Rightarrow> Inl IndexError
           | Inr ((bits, count) # _) \<Rightarrow> Inr (int (decode_unsigned bits))))"

section \<open>The request handler \<open>find_position\<close>\<close>

text \<open>Truth value of a decoded value, as \<open>not data\<close> tests it.\<close>

fun truthy :: "json \<Rightarrow> bool" where
  "truthy JNull = False"
| "truthy (JBool b) = b"
| "truthy (JInt i) = (i \<noteq> 0)"
| "truthy (JFloat r) = (r \<noteq> 0)"
| "truthy (JStr s) = (s \<noteq> [])"
| "truthy (JArr xs) = (xs \<noteq> [])"
| "truthy (JObj kvs) = (kvs \<noteq> [])"

fun is_prefix :: "'a list \<Rightarrow> 'a list \<Rightarrow> bool" where
  "is_prefix [] ys = True"
| "is_prefix (x # xs) [] = False"
| "is_prefix (x # xs) (y # ys) = (x = y \<and> is_prefix xs ys)"

fun is_substring :: "'a list \<Rightarrow> 'a list \<Rightarrow> bool" where
  "is_substring xs [] = (xs = [])"
| "is_substring xs (y # ys) = (is_prefix xs (y # ys) \<or> is_substring xs ys)"

text \<open>
  \<open>key in data\<close> for a string \<open>key\<close>: key membership for a \<open>dict\<close>, element membership
  for a \<open>list\<close>, substring test for a \<open>str\<close>, and \<open>TypeError\<close> (argument is not
  iterable) for a number or a \<open>bool\<close>.
\<close>

fun py_in :: "string \<Rightarrow> json \<Rightarrow> py_error + bool" where
  "py_in key (JObj kvs) = Inr (key \<in> set (map fst kvs))"
| "py_in key (JArr xs) = Inr (JStr key \<in> set xs)"
| "py_in key (JStr s) = Inr (is_substring key s)"
| "py_in key _ = Inl TypeError"

text \<open>
  \<open>data[key]\<close> for a string \<open>key\<close>: the value stored under the key of a \<open>dict\<close> (the last
  one, when the body repeats a key), \<open>KeyError\<close> when there is none, and \<open>TypeError\<close>
  for every other value (a \<open>list\<close> or \<open>str\<close> index must be an integer).
\<close>

fun py_getitem :: "json \<Rightarrow> string \<Rightarrow> py_error + json" where
  "py_getitem (JObj kvs) key =
     (case map_of (rev kvs) key of None \<Rightarrow> Inl KeyError | Some v \<Rightarrow> Inr v)"
| "py_getitem _ key = Inl TypeError"

datatype event =
    BackendClientCreated string nat
  | EngineConstructed nat nat
  | TextUpdated
  | SearchInvoked

datatype response_body =
    ErrorMessage string
  | NotFound json
  | Position json json int

type_synonym http_response = "response_body \<times> nat"

text \<open>
  The condition \<open>not data or 'word' not in data or 'string' not in data\<close>, evaluated
  left to right with short-circuit.
\<close>

definition request_rejected :: "json \<Rightarrow> py_error + bool" where
  "request_rejected data =
     (if \<not> truthy data then Inr True
      else case py_in ''word'' data of
        Inl e \<Rightarrow> Inl e
      | Inr has_word \<Rightarrow>
          if \<not> has_word then Inr True
          else (case py_in ''string'' data of
                  Inl e \<Rightarrow> Inl e
                | Inr has_string \<Rightarrow> Inr (\<not> has_string)))"

definition error_message :: string where
  "error_message =
     ''JSON body must include both '' @ [CHR 0x22] @ ''word'' @ [CHR 0x22] @ '' and '' @
     [CHR 0x22] @ ''string'' @ [CHR 0x22] @ '' keys.''"

text \<open>
  The handler proper. \<open>data\<close> is what \<open>request.get_json()\<close> returned (\<open>JNull\<close> for
  \<open>None\<close>); \<open>connect\<close> is \<open>BackendClient(api_endpoint, port)\<close>. The result is the
  response with its status, or the exception that leaves the handler, together with
  the engine operations performed, in order. \<open>text.translate\<close> exists only on a \<open>str\<close>,
  so \<open>update_text\<close> raises \<open>AttributeError\<close> on any other value.
\<close>

definition find_position ::
  "(string \<Rightarrow> nat \<Rightarrow> backend) \<Rightarrow> backend \<Rightarrow> (json \<Rightarrow> int) \<Rightarrow> json
     \<Rightarrow> (py_error + http_response) \<times> event list" where
  "find_position connect default_backend hash data =
     (case request_rejected data of
        Inl e \<Rightarrow> (Inl e, [])
      | Inr True \<Rightarrow> (Inr (ErrorMessage error_message, 400), [])
      | Inr False \<Rightarrow>
          (case py_getitem data ''word'' of
             Inl e \<Rightarrow> (Inl e, [])
           | Inr word \<Rightarrow>
               (case py_getitem data ''string'' of
                  Inl e \<Rightarrow> (Inl e, [])
                | Inr string \<Rightarrow>
                    (let fake_backend = connect ''127.0.0.1'' 42069;
                         app = SearchApplication default_backend hash 3 6 (Some fake_backend);
                         built = [BackendClientCreated ''127.0.0.1'' 42069, EngineConstructed 3 6]
                     in case string of
                          JStr text \<Rightarrow>
                            (let app' = update_text app text
                             in case search_word app' word of
                                  Inl e \<Rightarrow> (Inl e, built @ [TextUpdated, SearchInvoked])
                                | Inr position \<Rightarrow>
                                    (if position = - 1
                                     then (Inr (NotFound word, 200),
                                           built @ [TextUpdated, SearchInvoked])
                                     else (Inr (Position word string position, 200),
                                           built @ [TextUpdated, SearchInvoked])))
                        | _ \<Rightarrow> (Inl AttributeError, built)))))"

section \<open>The backend launcher\<close>








section \<open>Properties of the labeling function\<close>

lemma bin_digits_nonempty: "bin_digits n \<noteq> []"
  by (subst bin_digits.simps) simp

lemma bin_digits_bits: "list_all (\<lambda>c. c = CHR ''0'' \<or> c = CHR ''1'') (bin_digits n)"
proof (induction n rule: bin_digits.induct)
  case (1 n)
  show ?case
  proof (cases "n < 2")
    case True
    then show ?thesis by (subst bin_digits.simps) (simp add: bit_char_def)
  next
    case False
    with 1 show ?thesis by (subst bin_digits.simps) (simp add: bit_char_def)
  qed
qed

lemma bin_digits_length: "2 ^ m \<le> n \<Longrightarrow> m < length (bin_digits n)"
proof (induction m arbitrary: n)
  case 0
  then show ?case using bin_digits_nonempty [of n] by (cases "bin_digits n") simp_all
next
  case (Suc m)
  have "(2::nat) ^ Suc 0 \<le> 2 ^ Suc m" by (rule power_increasing) simp_all
  then have "(2::nat) \<le> 2 ^ Suc m" by (simp only: power_one_right One_nat_def [symmetric])
  with Suc.prems have n2: "\<not> n < 2" by (simp only: not_less)
  from Suc.prems have half: "2 ^ m \<le> n div 2" by simp
  from Suc.IH [OF half] have "m < length (bin_digits (n div 2))" .
  with n2 show ?case by (subst bin_digits.simps) simp
qed

lemma slice_last_suffix:
  "0 < k \<Longrightarrow> k \<le> length d \<Longrightarrow> slice_last k (p @ d) = drop (length d - k) d"
  by (simp add: slice_last_def)

text \<open>
  When the hash has at least \<open>k\<close> binary digits (and \<open>k\<close> is positive), the slice falls
  inside the digits, and the label is a bit string of exactly \<open>k\<close> characters.
\<close>

lemma labeling_bitstring:
  assumes "0 < k" and "2 ^ (k - 1) \<le> \<bar>hash x\<bar>"
  shows "is_bitstring k (labeling hash k x)"
proof -
  let ?d = "bin_digits (nat \<bar>hash x\<bar>)"
  have "(2::nat) ^ (k - 1) \<le> nat \<bar>hash x\<bar>"
    using assms(2) by (metis nat_mono nat_power_eq nat_numeral zero_le_numeral)
  then have "k - 1 < length ?d" by (rule bin_digits_length)
  with assms(1) have len: "k \<le> length ?d" by simp
  have "labeling hash k x = drop (length ?d - k) ?d"
    using slice_last_suffix [OF assms(1) len] by (simp add: labeling_def py_bin_def)
  moreover have "length (drop (length ?d - k) ?d) = k" using len by simp
  moreover have "list_all (\<lambda>c. c = CHR ''0'' \<or> c = CHR ''1'') (drop (length ?d - k) ?d)"
    using bin_digits_bits [of "nat \<bar>hash x\<bar>"] by (auto simp: list_all_iff dest: in_set_dropD)
  ultimately show ?thesis by (simp add: is_bitstring_def)
qed

text \<open>
  C5. The label of every item is a bit string of exactly \<open>k\<close> characters. This fails for
  an item with a small hash: the slice then reaches into the prefix that \<open>bin\<close> writes,
  or is shorter than \<open>k\<close>. CPython hashes the empty string to 0 under every seed, and
  the empty string is a word of every text with two adjacent spaces; with \<open>k = 6\<close> its
  label is the three characters \<open>0b0\<close>.
\<close>

theorem labeling_empty_word:
  "labeling (\<lambda>x. 0) 6 '''' = ''0b0'' \<and> \<not> is_bitstring 6 (labeling (\<lambda>x. 0) 6 '''')"
  by (simp add: labeling_def py_bin_def slice_last_def bin_digits.simps bit_char_def
      is_bitstring_def)

section \<open>Properties of the database oracle\<close>

lemma fold_table:
  "table (fold (\<lambda>i qd. qd\<lparr>table := (table qd)(i \<mapsto> lab (db ! i))\<rparr>) [0..<m] q) j =
     (if j < m then Some (lab (db ! j)) else table q j)"
  by (induction m) auto

lemma fold_return_size:
  "return_size (fold (\<lambda>i qd. qd\<lparr>table := (table qd)(i \<mapsto> lab (db ! i))\<rparr>) is q) =
     return_size q"
  by (induction "is" arbitrary: q) auto

lemma create_db_oracle_table:
  "table (create_db_oracle db lab k) i = (if i < length db then Some (lab (db ! i)) else None)"
  by (simp add: create_db_oracle_def fold_table)

lemma create_db_oracle_return_size: "return_size (create_db_oracle db lab k) = k"
  by (simp add: create_db_oracle_def fold_return_size)

lemma loaded_value_created:
  "i < length db \<Longrightarrow> loaded_value enc (create_db_oracle db lab k) i = enc (lab (db ! i))"
  by (simp add: loaded_value_def create_db_oracle_table)

lemma db_oracle_inverse_left: "db_oracle_inverse enc qd (db_oracle enc qd r) = r"
  by (simp add: db_oracle_def db_oracle_inverse_def xor.assoc)

lemma db_oracle_inverse_right: "db_oracle enc qd (db_oracle_inverse enc qd r) = r"
  by (simp add: db_oracle_def db_oracle_inverse_def xor.assoc)

lemma db_oracle_index: "index_reg (db_oracle enc qd r) = index_reg r"
  by (simp add: db_oracle_def)

lemma db_oracle_label:
  "label_reg (db_oracle enc qd r) = label_reg r XOR loaded_value enc qd (index_reg r)"
  by (simp add: db_oracle_def)

text \<open>
  C3. The oracle built by \<open>create_db_oracle\<close> maps every index \<open>i < len(db)\<close> to
  \<open>labeling(db[i])\<close>: as a table, and evaluated forward on the index with the Label
  Register at zero. Evaluating it forward and then applying its inverse leaves the
  Label Register at zero and the Index Register unchanged, at every index; what uses
  the result in between (the tagging) changes an amplitude and no register.
\<close>

theorem create_db_oracle_reversible:
  "(\<forall>i<length db. table (create_db_oracle db lab k) i = Some (lab (db ! i))) \<and>
   (\<forall>i<length db.
      db_oracle enc (create_db_oracle db lab k) \<lparr>index_reg = i, label_reg = 0\<rparr> =
        \<lparr>index_reg = i, label_reg = enc (lab (db ! i))\<rparr>) \<and>
   (\<forall>i. db_oracle_inverse enc (create_db_oracle db lab k)
          (db_oracle enc (create_db_oracle db lab k) \<lparr>index_reg = i, label_reg = 0\<rparr>) =
        \<lparr>index_reg = i, label_reg = 0\<rparr>)"
proof (intro conjI allI impI)
  fix i assume "i < length db"
  then show "table (create_db_oracle db lab k) i = Some (lab (db ! i))"
    by (simp add: create_db_oracle_table)
next
  fix i assume "i < length db"
  then show "db_oracle enc (create_db_oracle db lab k) \<lparr>index_reg = i, label_reg = 0\<rparr> =
        \<lparr>index_reg = i, label_reg = enc (lab (db ! i))\<rparr>"
    by (simp add: db_oracle_def loaded_value_created)
next
  fix i
  show "db_oracle_inverse enc (create_db_oracle db lab k)
          (db_oracle enc (create_db_oracle db lab k) \<lparr>index_reg = i, label_reg = 0\<rparr>) =
        \<lparr>index_reg = i, label_reg = 0\<rparr>"
    by (rule db_oracle_inverse_left)
qed

theorem create_db_oracle_reversible_witness:
  "table (create_db_oracle [''to'', ''be''] (\<lambda>w. w @ ''01'') 4) 1 = Some ''be01'' \<and>
   db_oracle length (create_db_oracle [''to'', ''be''] (\<lambda>w. w @ ''01'') 4)
       \<lparr>index_reg = 1, label_reg = 0\<rparr> = \<lparr>index_reg = 1, label_reg = 4\<rparr> \<and>
   db_oracle_inverse length (create_db_oracle [''to'', ''be''] (\<lambda>w. w @ ''01'') 4)
       (db_oracle length (create_db_oracle [''to'', ''be''] (\<lambda>w. w @ ''01'') 4)
          \<lparr>index_reg = 1, label_reg = 0\<rparr>) = \<lparr>index_reg = 1, label_reg = 0\<rparr>"
proof -
  let ?db = "[''to'', ''be'']" and ?lab = "\<lambda>w. w @ ''01''"
  have in_range: "(1::nat) < length ?db" by simp
  note all = create_db_oracle_reversible [of ?db ?lab 4 length]
  from all in_range have "table (create_db_oracle ?db ?lab 4) 1 = Some (?lab (?db ! 1))"
    by blast
  moreover from all in_range
  have "db_oracle length (create_db_oracle ?db ?lab 4) \<lparr>index_reg = 1, label_reg = 0\<rparr> =
          \<lparr>index_reg = 1, label_reg = length (?lab (?db ! 1))\<rparr>"
    by blast
  moreover from all
  have "db_oracle_inverse length (create_db_oracle ?db ?lab 4)
          (db_oracle length (create_db_oracle ?db ?lab 4) \<lparr>index_reg = 1, label_reg = 0\<rparr>) =
        \<lparr>index_reg = 1, label_reg = 0\<rparr>"
    by blast
  ultimately show ?thesis by simp
qed

section \<open>Properties of the query marker\<close>

lemma query_oracle_state:
  "query_oracle enc qd lab (r, a) q phase =
     (r, if label_reg r XOR loaded_value enc qd (index_reg r) = enc (lab q)
         then a * cis phase else a)"
  by (simp add: query_oracle_def db_oracle_inverse_left tag_state_def db_oracle_label)

text \<open>
  C7. For every index value and every query, the query marker (forward evaluation of
  the database oracle, phase change where the label equals the label of the query,
  uncomputation) returns both registers to the values they had: a Label Register at
  zero is at zero again. Only the amplitude changes, by the phase factor (a sign flip
  for the default phase), so in a superposition every term keeps its registers and no
  term holds a label that depends on its index.
\<close>

theorem query_oracle_uncomputes:
  "query_oracle enc qd lab (r, a) q phase =
     (r, if label_reg r XOR loaded_value enc qd (index_reg r) = enc (lab q)
         then a * cis phase else a) \<and>
   query_oracle enc qd lab (\<lparr>index_reg = i, label_reg = 0\<rparr>, a) q pi =
     (\<lparr>index_reg = i, label_reg = 0\<rparr>,
      if loaded_value enc qd i = enc (lab q) then - a else a) \<and>
   map fst (query_oracle_all enc qd lab psi q phase) = map fst psi"
proof (intro conjI)
  show "query_oracle enc qd lab (r, a) q phase =
     (r, if label_reg r XOR loaded_value enc qd (index_reg r) = enc (lab q)
         then a * cis phase else a)"
    by (rule query_oracle_state)
  show "query_oracle enc qd lab (\<lparr>index_reg = i, label_reg = 0\<rparr>, a) q pi =
     (\<lparr>index_reg = i, label_reg = 0\<rparr>,
      if loaded_value enc qd i = enc (lab q) then - a else a)"
    by (simp add: query_oracle_state)
  have "fst (query_oracle enc qd lab s q phase) = fst s" for s
    by (cases s) (simp add: query_oracle_state)
  then show "map fst (query_oracle_all enc qd lab psi q phase) = map fst psi"
    by (simp add: query_oracle_all_def comp_def)
qed

text \<open>
  C6. Two builds from the same collection, the same labeling function and the same
  \<open>k\<close> give the same index-to-label mapping. The mapping reads the labeling function at
  the items of the collection only, so it is enough that the two labeling functions
  agree there: this is the case within one process, and between processes whose
  interpreter hashes the items alike.
\<close>

theorem create_db_oracle_deterministic:
  assumes "\<forall>x\<in>set db. lab x = lab' x"
  shows "create_db_oracle db lab k = create_db_oracle db lab' k"
proof -
  have "(\<lambda>qd. qd\<lparr>table := (table qd)(i \<mapsto> lab (db ! i))\<rparr>) =
        (\<lambda>qd::quantum_dictionary. qd\<lparr>table := (table qd)(i \<mapsto> lab' (db ! i))\<rparr>)"
    if "i \<in> set [0..<length db]" for i
  proof -
    from that have "db ! i \<in> set db" by simp
    with assms have "lab (db ! i) = lab' (db ! i)" by blast
    then show ?thesis by simp
  qed
  then show ?thesis
    unfolding create_db_oracle_def by (intro fold_cong refl)
qed

theorem create_db_oracle_deterministic_witness:
  "create_db_oracle [''to'', ''be''] (labeling (\<lambda>x. if x = ''to'' then 1000 else 1001) 6) 6 =
   create_db_oracle [''to'', ''be'']
     (labeling (\<lambda>x. if x = ''to'' then 1000 else if x = ''be'' then 1001 else 7) 6) 6"
  using create_db_oracle_deterministic
    [of "[''to'', ''be'']" "labeling (\<lambda>x. if x = ''to'' then 1000 else 1001) 6"
        "labeling (\<lambda>x. if x = ''to'' then 1000 else if x = ''be'' then 1001 else 7) 6" 6]
  by (simp add: labeling_def)

text \<open>
  The labeling function of the application is \<open>bin(hash(x))[-k:]\<close>, and the interpreter
  seeds \<open>hash\<close> anew in every process. Two runs that hash the word \<open>a\<close> to 123456789 and
  to 987654321 label it \<open>010101\<close> and \<open>110001\<close>, and build different mappings from the
  same collection and the same \<open>k\<close>.
\<close>

theorem create_db_oracle_hash_dependent:
  "create_db_oracle [JStr ''a''] (labeling (\<lambda>x. 123456789) 6) 6 \<noteq>
   create_db_oracle [JStr ''a''] (labeling (\<lambda>x. 987654321) 6) 6 \<and>
   app_db_oracle (update_text
       (SearchApplication (\<lambda>job shots. Inl BackendUnavailable) (\<lambda>x. 123456789) 3 6 None) ''a'') \<noteq>
   app_db_oracle (update_text
       (SearchApplication (\<lambda>job shots. Inl BackendUnavailable) (\<lambda>x. 987654321) 3 6 None) ''a'')"
proof -
  have differ: "create_db_oracle [JStr ''a''] (labeling (\<lambda>x. 123456789) 6) 6 \<noteq>
      create_db_oracle [JStr ''a''] (labeling (\<lambda>x. 987654321) 6) 6"
  proof
    assume "create_db_oracle [JStr ''a''] (labeling (\<lambda>x. 123456789) 6) 6 =
            create_db_oracle [JStr ''a''] (labeling (\<lambda>x. 987654321) 6) 6"
    then have "table (create_db_oracle [JStr ''a''] (labeling (\<lambda>x. 123456789) 6) 6) 0 =
               table (create_db_oracle [JStr ''a''] (labeling (\<lambda>x. 987654321) 6) 6) 0"
      by simp
    then have "labeling (\<lambda>x. 123456789) 6 (JStr ''a'') =
               labeling (\<lambda>x. 987654321) 6 (JStr ''a'')"
      by (simp add: create_db_oracle_table)
    then show False
      by (simp add: labeling_def py_bin_def slice_last_def bin_digits.simps bit_char_def)
  qed
  have "app_db_oracle (update_text
          (SearchApplication (\<lambda>job shots. Inl BackendUnavailable) h 3 6 None) ''a'') =
        Some (create_db_oracle [JStr ''a''] (labeling h 6) 6)" for h :: "json \<Rightarrow> int"
    by (simp add: update_text_def Let_def SearchApplication_def translate_delete_def
        string_punctuation_def)
  with differ show ?thesis by simp
qed

section \<open>Properties of the search application\<close>

text \<open>
  C4. For every text, \<open>update_text\<close> stores the first \<open>2^n\<close> words of the cleaned text and
  nothing else, so at most \<open>2^n\<close> entries: the words beyond are dropped, no error is
  raised (the operation has no failing branch), and the database oracle is built over
  exactly the stored words.
\<close>

theorem update_text_truncates:
  "app_data (update_text app text) =
     Some (map JStr (take (2 ^ app_n app)
             (split_on CHR '' '' (translate_delete string_punctuation text)))) \<and>
   (\<exists>ws. app_data (update_text app text) = Some ws \<and> length ws \<le> 2 ^ app_n app \<and>
      app_db_oracle (update_text app text) =
        Some (create_db_oracle ws (app_labeling app) (app_k app)) \<and>
      dom (table (create_db_oracle ws (app_labeling app) (app_k app))) = {..<length ws})"
proof -
  let ?ws = "map JStr (take (2 ^ app_n app)
               (split_on CHR '' '' (translate_delete string_punctuation text)))"
  have data: "app_data (update_text app text) = Some ?ws"
    by (simp add: update_text_def Let_def)
  have built: "app_db_oracle (update_text app text) =
      Some (create_db_oracle ?ws (app_labeling app) (app_k app))"
    by (simp add: update_text_def Let_def)
  have len: "length ?ws \<le> 2 ^ app_n app" by simp
  have "dom (table (create_db_oracle ?ws (app_labeling app) (app_k app))) = {..<length ?ws}"
    by (auto simp: dom_def create_db_oracle_table split: if_splits)
  with data built len show ?thesis by blast
qed

theorem update_text_truncates_witness:
  "app_data (update_text (SearchApplication (\<lambda>j s. Inl BackendUnavailable) (\<lambda>x. 1000) 1 6 None)
      ''to be, or not to be!'') = Some [JStr ''to'', JStr ''be'']"
  using update_text_truncates
    [of "SearchApplication (\<lambda>j s. Inl BackendUnavailable) (\<lambda>x. 1000) 1 6 None"
        "''to be, or not to be!''"]
  by (simp add: SearchApplication_def translate_delete_def string_punctuation_def)




section \<open>Properties of the request handler\<close>




text \<open>
  A request without a body, or whose body is an object without the key \<open>word\<close> or
  without the key \<open>string\<close>, is answered with status 400 and the error message, and no
  engine operation is performed.
\<close>

lemma find_position_rejects:
  assumes "data = JNull \<or>
           (\<exists>kvs. data = JObj kvs \<and> (''word'' \<notin> fst ` set kvs \<or> ''string'' \<notin> fst ` set kvs))"
  shows "find_position connect d h data = (Inr (ErrorMessage error_message, 400), [])"
proof -
  have "request_rejected data = Inr True"
    using assms by (auto simp: request_rejected_def)
  then show ?thesis by (simp add: find_position_def)
qed

text \<open>
  C9. Every request whose body is missing or lacks one of the two keys is answered
  with status 400 and the error message, before any engine operation. The handler
  does so for a missing body and for an object; a body that is a non-zero number
  (here \<open>5\<close>) or \<open>true\<close> has neither key, and there the test \<open>'word' not in data\<close> raises
  \<open>TypeError\<close>: the request ends in an unhandled exception and not in the 400 response.
\<close>

theorem find_position_scalar_body:
  "find_position connect d h (JInt 5) = (Inl TypeError, [])"
  by (simp add: find_position_def request_rejected_def)

section \<open>Properties of the backend launcher\<close>





end
